theory Spec2Isabelle
  imports Main "HOL-Library.Word"
begin

unbundle bit_operations_syntax

section \<open>Data model of package noise\<close>

type_synonym byte = "8 word"
type_synonym uint64 = "64 word"

text \<open>A Go \<open>error\<close> value is represented by its message; \<open>None\<close> is \<open>nil\<close>.\<close>

type_synonym error = string

text \<open>\<open>cipher.PubKey\<close> and \<open>cipher.SecKey\<close> are byte arrays (33 and 32 bytes).\<close>

type_synonym PubKey = "byte list"
type_synonym SecKey = "byte list"

text \<open>
  A Go call either returns its results or panics. A \<open>[]byte\<close> result of
  \<open>DecryptUnsafe\<close> is a \<open>byte list option\<close>: \<open>None\<close> is the \<open>nil\<close> slice and
  \<open>Some []\<close> the empty, non-nil slice of \<open>make([]byte, 0)\<close>.
\<close>

datatype 'a outcome = Returns 'a | Panics string

definition nil_dereference :: string where
  "nil_dereference = ''runtime error: invalid memory address or nil pointer dereference''"

definition index_out_of_range :: string where
  "index_out_of_range = ''runtime error: index out of range''"

text \<open>\<open>const nonceSize = 8\<close>\<close>

definition nonceSize :: nat where
  "nonceSize = 8"

subsection \<open>The parts of the imported packages that the code calls\<close>

text \<open>
  \<open>binary.BigEndian.PutUint64(b, v)\<close> stores \<open>v\<close> in the first eight bytes of \<open>b\<close>, most
  significant byte first, and \<open>binary.BigEndian.Uint64(b)\<close> reads them back. Both index
  \<open>b[7]\<close> first and so panic on a shorter slice: that is the \<open>None\<close> here.
\<close>

definition PutUint64 :: "byte list \<Rightarrow> uint64 \<Rightarrow> byte list option" where
  "PutUint64 b v =
     (if length b < 8 then None
      else Some ([ucast (drop_bit 56 v), ucast (drop_bit 48 v), ucast (drop_bit 40 v),
                  ucast (drop_bit 32 v), ucast (drop_bit 24 v), ucast (drop_bit 16 v),
                  ucast (drop_bit 8 v), ucast v] @ drop 8 b))"

definition Uint64 :: "byte list \<Rightarrow> uint64 option" where
  "Uint64 b =
     (if length b < 8 then None
      else Some (ucast (b ! 7) OR push_bit 8 (ucast (b ! 6)) OR push_bit 16 (ucast (b ! 5))
                 OR push_bit 24 (ucast (b ! 4)) OR push_bit 32 (ucast (b ! 3))
                 OR push_bit 40 (ucast (b ! 2)) OR push_bit 48 (ucast (b ! 1))
                 OR push_bit 56 (ucast (b ! 0))))"

text \<open>
  \<open>atomic.AddUint64(addr, delta)\<close> adds with wrap-around and returns the new value;
  \<open>atomic.CompareAndSwapUint64(addr, old, new)\<close> stores \<open>new\<close> only if the cell holds
  \<open>old\<close>. Each takes the content of the cell and returns the new content of the cell
  together with the call's result.
\<close>

definition AddUint64 :: "uint64 \<Rightarrow> uint64 \<Rightarrow> uint64 \<times> uint64" where
  "AddUint64 cell delta = (cell + delta, cell + delta)"

definition CompareAndSwapUint64 :: "uint64 \<Rightarrow> uint64 \<Rightarrow> uint64 \<Rightarrow> uint64 \<times> bool" where
  "CompareAndSwapUint64 cell old new = (if cell = old then (new, True) else (cell, False))"

text \<open>
  The interface \<open>noise.Cipher\<close>: \<open>Encrypt(out, n, ad, plaintext)\<close> and
  \<open>Decrypt(out, n, ad, ciphertext)\<close>, the latter with Go's result pair of a slice and an
  error. The AEAD itself is imported, so its two methods are fields here and every theorem
  below holds for any choice of them. A \<open>noise.CipherState\<close> gives access to its cipher
  through the method \<open>Cipher()\<close>.
\<close>

record Cipher =
  Encrypt :: "byte list \<Rightarrow> uint64 \<Rightarrow> byte list \<Rightarrow> byte list \<Rightarrow> byte list"
  Decrypt :: "byte list \<Rightarrow> uint64 \<Rightarrow> byte list \<Rightarrow> byte list \<Rightarrow> byte list option \<times> error option"

record CipherState =
  Cipher :: Cipher

text \<open>
  \<open>noise.HandshakePattern\<close>: of its fields the code reads \<open>Messages\<close>, one list of tokens
  for each handshake message.
\<close>

datatype MessagePattern =
  MessagePatternS | MessagePatternE | MessagePatternDHEE | MessagePatternDHES
  | MessagePatternDHSE | MessagePatternDHSS | MessagePatternPSK

record HandshakePattern =
  Name :: string
  Messages :: "MessagePattern list list"

text \<open>
  The methods of \<open>*noise.HandshakeState\<close> that the code calls, over any representation
  \<open>'hs\<close> of the handshake state. \<open>WriteMessage\<close> and \<open>ReadMessage\<close> change the handshake
  state, so each returns the new one beside Go's four results.
\<close>

record 'hs HandshakeState =
  MessageIndex :: "'hs \<Rightarrow> int"
  WriteMessage :: "'hs \<Rightarrow> byte list \<Rightarrow> byte list \<Rightarrow>
     (byte list \<times> CipherState option \<times> CipherState option \<times> error option) \<times> 'hs"
  ReadMessage :: "'hs \<Rightarrow> byte list \<Rightarrow> byte list \<Rightarrow>
     (byte list \<times> CipherState option \<times> CipherState option \<times> error option) \<times> 'hs"
  PeerStatic :: "'hs \<Rightarrow> byte list"

subsection \<open>Config and Noise\<close>

record Config =
  LocalPK :: PubKey
  LocalSK :: SecKey
  RemotePK :: PubKey
  Initiator :: bool

text \<open>
  \<open>type Noise struct\<close>: the pointers \<open>enc\<close> and \<open>dec\<close> are \<open>nil\<close> until the handshake
  stores them, so they are options; \<open>hs\<close> is set by \<open>New\<close> and never \<open>nil\<close>.
\<close>

record 'hs Noise =
  pk :: PubKey
  sk :: SecKey
  init :: bool
  pattern :: HandshakePattern
  hs :: 'hs
  enc :: "CipherState option"
  dec :: "CipherState option"
  encNonce :: uint64
  decNonce :: uint64

section \<open>Transport\<close>

text \<open>
  \<open>func (ns *Noise) EncryptUnsafe(plaintext []byte) []byte\<close>. The counter is
  incremented before \<open>ns.enc\<close> is dereferenced, so a panic on a \<open>nil\<close> cipher state
  leaves the incremented counter behind.
\<close>

definition EncryptUnsafe :: "'hs Noise \<Rightarrow> byte list \<Rightarrow> byte list outcome \<times> 'hs Noise" where
  "EncryptUnsafe ns plaintext =
     (let (cell, nonce) = AddUint64 (encNonce ns) 1;
          ns1 = ns\<lparr>encNonce := cell\<rparr>
      in case PutUint64 (replicate nonceSize 0) nonce of
           None \<Rightarrow> (Panics index_out_of_range, ns1)
         | Some buf \<Rightarrow>
             (case enc ns1 of
                None \<Rightarrow> (Panics nil_dereference, ns1)
              | Some cs \<Rightarrow> (Returns (buf @ Encrypt (Cipher cs) [] nonce [] plaintext), ns1)))"

text \<open>
  \<open>func (ns *Noise) DecryptUnsafe(ciphertext []byte) ([]byte, error)\<close>, branch by
  branch. The warning written to the logger on the rejecting branch is not part of the
  state.
\<close>

definition DecryptUnsafe ::
  "'hs Noise \<Rightarrow> byte list \<Rightarrow> (byte list option \<times> error option) outcome \<times> 'hs Noise" where
  "DecryptUnsafe ns ciphertext =
     (if length ciphertext = 0 then (Returns (Some [], None), ns)
      else if length ciphertext < nonceSize then
        (Panics ''noise decrypt unsafe: cipher text cannot be less than 8 bytes'', ns)
      else
        (case Uint64 (take nonceSize ciphertext) of
           None \<Rightarrow> (Panics index_out_of_range, ns)
         | Some recvSeq \<Rightarrow>
             (let (cell, added) = AddUint64 (decNonce ns) 1;
                  lastSeq = added - 1;
                  ns1 = ns\<lparr>decNonce := cell\<rparr>
              in if recvSeq \<le> lastSeq then (Returns (None, None), ns1)
                 else
                   (let (cell2, swapped) = CompareAndSwapUint64 (decNonce ns1) lastSeq recvSeq;
                        ns2 = ns1\<lparr>decNonce := cell2\<rparr>
                    in case dec ns2 of
                         None \<Rightarrow> (Panics nil_dereference, ns2)
                       | Some cs \<Rightarrow>
                           (Returns (Decrypt (Cipher cs) [] recvSeq []
                                       (drop nonceSize ciphertext)), ns2)))))"

section \<open>Construction, handshake and accessors\<close>

text \<open>
  \<open>func New(pattern noise.HandshakePattern, config Config) (*Noise, error)\<close>.
  \<open>noise.NewHandshakeState\<close> is imported and \<open>PubKey.Null\<close> lives in package cipher, so
  both are arguments; the first receives the fields of \<open>noise.Config\<close> that \<open>New\<close> sets
  (pattern, initiator flag, static key pair, peer static key or \<open>nil\<close>). The struct literal
  names five fields: \<open>enc\<close> and \<open>dec\<close> start as \<open>nil\<close> and both counters as 0.
\<close>

definition New ::
  "(HandshakePattern \<Rightarrow> bool \<Rightarrow> byte list \<times> byte list \<Rightarrow> byte list option \<Rightarrow> error + 'hs) \<Rightarrow>
   (PubKey \<Rightarrow> bool) \<Rightarrow> HandshakePattern \<Rightarrow> Config \<Rightarrow> error + 'hs Noise" where
  "New NewHandshakeState Null pat config =
     (let peer = (if \<not> Null (RemotePK config) then Some (RemotePK config) else None)
      in case NewHandshakeState pat (Initiator config) (LocalPK config, LocalSK config) peer of
           Inl err \<Rightarrow> Inl err
         | Inr h \<Rightarrow>
             Inr \<lparr>pk = LocalPK config, sk = LocalSK config, init = Initiator config,
                  pattern = pat, hs = h, enc = None, dec = None,
                  encNonce = 0, decNonce = 0\<rparr>)"

text \<open>
  \<open>func (ns *Noise) HandshakeMessage() (res []byte, err error)\<close>: below the last message
  index the two cipher states returned by \<open>WriteMessage\<close> are discarded; otherwise they are
  assigned to \<open>ns.dec, ns.enc\<close>, in this order.
\<close>

definition HandshakeMessage ::
  "'hs HandshakeState \<Rightarrow> 'hs Noise \<Rightarrow> (byte list \<times> error option) \<times> 'hs Noise" where
  "HandshakeMessage lib ns =
     (if MessageIndex lib (hs ns) < int (length (Messages (pattern ns))) - 1 then
        (case WriteMessage lib (hs ns) [] [] of
           ((res, _, _, err), h) \<Rightarrow> ((res, err), ns\<lparr>hs := h\<rparr>))
      else
        (case WriteMessage lib (hs ns) [] [] of
           ((res, cs1, cs2, err), h) \<Rightarrow> ((res, err), ns\<lparr>hs := h, dec := cs1, enc := cs2\<rparr>)))"

text \<open>
  \<open>func (ns *Noise) ProcessMessage(msg []byte) (err error)\<close>: the same test, and on the
  other branch the assignment is to \<open>ns.enc, ns.dec\<close>.
\<close>

definition ProcessMessage ::
  "'hs HandshakeState \<Rightarrow> 'hs Noise \<Rightarrow> byte list \<Rightarrow> error option \<times> 'hs Noise" where
  "ProcessMessage lib ns msg =
     (if MessageIndex lib (hs ns) < int (length (Messages (pattern ns))) - 1 then
        (case ReadMessage lib (hs ns) [] msg of
           ((_, _, _, err), h) \<Rightarrow> (err, ns\<lparr>hs := h\<rparr>))
      else
        (case ReadMessage lib (hs ns) [] msg of
           ((_, cs1, cs2, err), h) \<Rightarrow> (err, ns\<lparr>hs := h, enc := cs1, dec := cs2\<rparr>)))"

text \<open>\<open>func (ns *Noise) LocalStatic() cipher.PubKey\<close>\<close>

definition LocalStatic :: "'hs Noise \<Rightarrow> PubKey" where
  "LocalStatic ns = pk ns"

text \<open>
  \<open>func (ns *Noise) RemoteStatic() cipher.PubKey\<close>. \<open>cipher.NewPubKey\<close> is not among the
  sources, so it is an argument with Go's result pair; on its error the method calls
  \<open>panic(err)\<close>. The method has a single result, a public key.
\<close>

definition RemoteStatic ::
  "(byte list \<Rightarrow> PubKey \<times> error option) \<Rightarrow> 'hs HandshakeState \<Rightarrow> 'hs Noise \<Rightarrow> PubKey outcome" where
  "RemoteStatic NewPubKey lib ns =
     (case NewPubKey (PeerStatic lib (hs ns)) of
        (key, Some err) \<Rightarrow> Panics err
      | (key, None) \<Rightarrow> Returns key)"

text \<open>
  Modelled from the spec: \<open>cipher.NewPubKey\<close>, which \<open>RemoteStatic\<close> calls, is not among
  the sources. The spec's data model makes a public key an opaque byte string of fixed
  length and has no key format checked beyond what the underlying cryptographic primitive
  enforces. So the conversion succeeds exactly on the byte strings of the key length that
  the primitive accepts and returns them unchanged; on any other input, the empty one
  included, it returns an error. The primitive's check is the argument \<open>valid\<close>; the key
  length is that of \<open>cipher.PubKey\<close>.
\<close>

definition NewPubKey :: "(byte list \<Rightarrow> bool) \<Rightarrow> byte list \<Rightarrow> PubKey \<times> error option" where
  "NewPubKey valid b =
     (if length b \<noteq> 33 then (replicate 33 0, Some ''Invalid public key length'')
      else if \<not> valid b then (replicate 33 0, Some ''Invalid public key'')
      else (b, None))"

text \<open>\<open>func (ns *Noise) HandshakeFinished() bool\<close>\<close>

definition HandshakeFinished :: "'hs HandshakeState \<Rightarrow> 'hs Noise \<Rightarrow> bool" where
  "HandshakeFinished lib ns = (MessageIndex lib (hs ns) = int (length (Messages (pattern ns))))"

section \<open>Runs of several calls\<close>

text \<open>
  Consecutive calls on one channel: each call works on the state the previous one left.
\<close>

fun EncryptUnsafe_calls :: "'hs Noise \<Rightarrow> byte list list \<Rightarrow> byte list outcome list \<times> 'hs Noise" where
  "EncryptUnsafe_calls ns [] = ([], ns)"
| "EncryptUnsafe_calls ns (p # ps) =
     (case EncryptUnsafe ns p of
        (r, ns1) \<Rightarrow> (case EncryptUnsafe_calls ns1 ps of (rs, ns2) \<Rightarrow> (r # rs, ns2)))"

fun DecryptUnsafe_calls ::
  "'hs Noise \<Rightarrow> byte list list \<Rightarrow> (byte list option \<times> error option) outcome list \<times> 'hs Noise" where
  "DecryptUnsafe_calls ns [] = ([], ns)"
| "DecryptUnsafe_calls ns (c # cs) =
     (case DecryptUnsafe ns c of
        (r, ns1) \<Rightarrow> (case DecryptUnsafe_calls ns1 cs of (rs, ns2) \<Rightarrow> (r # rs, ns2)))"

text \<open>The counter a transport message carries in its first \<open>nonceSize\<close> bytes.\<close>

definition embedded_counter :: "byte list outcome \<Rightarrow> uint64 option" where
  "embedded_counter r = (case r of Returns out \<Rightarrow> Uint64 (take nonceSize out) | Panics _ \<Rightarrow> None)"

section \<open>An instance of the imported interfaces\<close>

text \<open>
  Concrete inputs need a cipher and a handshake state. \<open>demo_cipher\<close> is a keyed toy
  AEAD: it masks every byte with the key and appends one tag byte that binds key and
  nonce; decryption fails unless the tag matches. \<open>demo_lib\<close> follows the control flow of
  the library's handshake state (turn taking, message index, cipher states handed out with
  the last message) and hands out a fixed pair of cipher states. The two patterns are the
  library's \<open>HandshakeKK\<close> and \<open>HandshakeXK\<close>.
\<close>

definition demo_cipher :: "byte \<Rightarrow> Cipher" where
  "demo_cipher key =
     \<lparr>Encrypt = (\<lambda>out n ad plaintext. out @ map (\<lambda>b. b XOR key) plaintext @ [key + ucast n]),
      Decrypt = (\<lambda>out n ad ciphertext.
         if ciphertext = [] then (None, Some ''cipher: message authentication failed'')
         else if last ciphertext \<noteq> key + ucast n
           then (None, Some ''cipher: message authentication failed'')
         else (Some (out @ map (\<lambda>b. b XOR key) (butlast ciphertext)), None))\<rparr>"

definition demo_cs1 :: CipherState where
  "demo_cs1 = \<lparr>Cipher = demo_cipher 90\<rparr>"

definition demo_cs2 :: CipherState where
  "demo_cs2 = \<lparr>Cipher = demo_cipher 195\<rparr>"

definition HandshakeKK :: HandshakePattern where
  "HandshakeKK =
     \<lparr>Name = ''KK'',
      Messages = [[MessagePatternE, MessagePatternDHES, MessagePatternDHSS],
                  [MessagePatternE, MessagePatternDHEE, MessagePatternDHSE]]\<rparr>"

definition HandshakeXK :: HandshakePattern where
  "HandshakeXK =
     \<lparr>Name = ''XK'',
      Messages = [[MessagePatternE, MessagePatternDHES],
                  [MessagePatternE, MessagePatternDHEE],
                  [MessagePatternS, MessagePatternDHSE]]\<rparr>"

record demo_state =
  msgIdx :: int
  messagePatterns :: "MessagePattern list list"
  shouldWrite :: bool
  peerStatic :: "byte list"

definition demo_step ::
  "bool \<Rightarrow> demo_state \<Rightarrow> byte list \<Rightarrow> byte list \<Rightarrow>
     (byte list \<times> CipherState option \<times> CipherState option \<times> error option) \<times> demo_state" where
  "demo_step writing h out payload =
     (if shouldWrite h \<noteq> writing then
        (([], None, None, Some ''noise: unexpected call''), h)
      else if msgIdx h > int (length (messagePatterns h)) - 1 then
        (([], None, None, Some ''noise: no handshake messages left''), h)
      else
        (let h1 = h\<lparr>shouldWrite := \<not> writing, msgIdx := msgIdx h + 1\<rparr>
         in if msgIdx h1 \<ge> int (length (messagePatterns h1))
            then ((out @ payload, Some demo_cs1, Some demo_cs2, None), h1)
            else ((out @ payload, None, None, None), h1)))"

definition demo_lib :: "demo_state HandshakeState" where
  "demo_lib =
     \<lparr>MessageIndex = msgIdx,
      WriteMessage = demo_step True,
      ReadMessage = demo_step False,
      PeerStatic = peerStatic\<rparr>"

definition demo_NewHandshakeState ::
  "HandshakePattern \<Rightarrow> bool \<Rightarrow> byte list \<times> byte list \<Rightarrow> byte list option \<Rightarrow> error + demo_state" where
  "demo_NewHandshakeState pat initiator static peer =
     Inr \<lparr>msgIdx = 0, messagePatterns = Messages pat, shouldWrite = initiator,
          peerStatic = (case peer of None \<Rightarrow> [] | Some key \<Rightarrow> key)\<rparr>"

definition demo_Null :: "PubKey \<Rightarrow> bool" where
  "demo_Null key = (key = replicate 33 0)"

definition demo_NewPubKey :: "byte list \<Rightarrow> PubKey \<times> error option" where
  "demo_NewPubKey b =
     (if length b \<noteq> 33 then (replicate 33 0, Some ''Invalid public key length'')
      else (b, None))"

text \<open>
  The two ends of a finished KK handshake over \<open>demo_lib\<close>, as \<open>New\<close>,
  \<open>HandshakeMessage\<close> and \<open>ProcessMessage\<close> leave them: both counters are 0 and the send
  state of one end is the receive state of the other.
\<close>

definition demo_initiator_config :: Config where
  "demo_initiator_config =
     \<lparr>LocalPK = replicate 33 2, LocalSK = replicate 32 7, RemotePK = replicate 33 3,
      Initiator = True\<rparr>"

definition demo_responder_config :: Config where
  "demo_responder_config =
     \<lparr>LocalPK = replicate 33 3, LocalSK = replicate 32 9, RemotePK = replicate 33 2,
      Initiator = False\<rparr>"

definition demo_initiator :: "demo_state Noise" where
  "demo_initiator =
     \<lparr>pk = replicate 33 2, sk = replicate 32 7, init = True, pattern = HandshakeKK,
      hs = \<lparr>msgIdx = 2, messagePatterns = Messages HandshakeKK, shouldWrite = True,
            peerStatic = replicate 33 3\<rparr>,
      enc = Some demo_cs1, dec = Some demo_cs2, encNonce = 0, decNonce = 0\<rparr>"

definition demo_responder :: "demo_state Noise" where
  "demo_responder =
     \<lparr>pk = replicate 33 3, sk = replicate 32 9, init = False, pattern = HandshakeKK,
      hs = \<lparr>msgIdx = 2, messagePatterns = Messages HandshakeKK, shouldWrite = False,
            peerStatic = replicate 33 2\<rparr>,
      enc = Some demo_cs2, dec = Some demo_cs1, encNonce = 0, decNonce = 0\<rparr>"

text \<open>
  The same two ends one step earlier: the responder is about to write the last message of
  the pattern and the initiator is about to read it; neither holds a cipher state yet.
\<close>

definition demo_responder_last_step :: "demo_state Noise" where
  "demo_responder_last_step =
     \<lparr>pk = replicate 33 3, sk = replicate 32 9, init = False, pattern = HandshakeKK,
      hs = \<lparr>msgIdx = 1, messagePatterns = Messages HandshakeKK, shouldWrite = True,
            peerStatic = replicate 33 2\<rparr>,
      enc = None, dec = None, encNonce = 0, decNonce = 0\<rparr>"

definition demo_initiator_last_step :: "demo_state Noise" where
  "demo_initiator_last_step =
     \<lparr>pk = replicate 33 2, sk = replicate 32 7, init = True, pattern = HandshakeKK,
      hs = \<lparr>msgIdx = 1, messagePatterns = Messages HandshakeKK, shouldWrite = False,
            peerStatic = replicate 33 3\<rparr>,
      enc = None, dec = None, encNonce = 0, decNonce = 0\<rparr>"

text \<open>
  A responder of the XK pattern right after \<open>New\<close>: its configuration carries the null key
  as remote key, so the handshake state has no peer static key yet.
\<close>

definition demo_xk_config :: Config where
  "demo_xk_config =
     \<lparr>LocalPK = replicate 33 3, LocalSK = replicate 32 9, RemotePK = replicate 33 0,
      Initiator = False\<rparr>"

definition demo_xk_responder :: "demo_state Noise" where
  "demo_xk_responder =
     \<lparr>pk = replicate 33 3, sk = replicate 32 9, init = False, pattern = HandshakeXK,
      hs = \<lparr>msgIdx = 0, messagePatterns = Messages HandshakeXK, shouldWrite = False,
            peerStatic = []\<rparr>,
      enc = None, dec = None, encNonce = 0, decNonce = 0\<rparr>"

text \<open>
  The 8-byte big-endian encoding of a number, written arithmetically: byte \<open>j\<close> is the
  digit of weight \<open>256 ^ (7 - j)\<close>.
\<close>

definition big_endian8 :: "nat \<Rightarrow> byte list" where
  "big_endian8 n = map (\<lambda>j. of_nat (n div 256 ^ j mod 256)) [7, 6, 5, 4, 3, 2, 1, 0]"

section \<open>Facts about the byte order and the counters\<close>

lemma take_bit_split:
  fixes a :: "'a::len word"
  shows "take_bit (m + n) a = take_bit m a OR push_bit m (take_bit n (drop_bit m a))"
  by (rule bit_word_eqI) (auto simp: bit_simps)

lemma ucast_byte_back:
  fixes x :: uint64
  shows "(ucast (ucast x :: byte) :: uint64) = take_bit 8 x"
  by (rule bit_word_eqI) (auto simp: bit_simps)

text \<open>The eight bytes that \<open>PutUint64\<close> writes are put together again by \<open>Uint64\<close>.\<close>

lemma be_join:
  fixes v :: uint64
  shows "ucast (ucast v :: byte) OR push_bit 8 (ucast (ucast (drop_bit 8 v) :: byte))
     OR push_bit 16 (ucast (ucast (drop_bit 16 v) :: byte))
     OR push_bit 24 (ucast (ucast (drop_bit 24 v) :: byte))
     OR push_bit 32 (ucast (ucast (drop_bit 32 v) :: byte))
     OR push_bit 40 (ucast (ucast (drop_bit 40 v) :: byte))
     OR push_bit 48 (ucast (ucast (drop_bit 48 v) :: byte))
     OR push_bit 56 (ucast (ucast (drop_bit 56 v) :: byte)) = v"
proof -
  have "v = take_bit (56 + 8) v" by (rule sym, rule take_bit_word_eq_self) simp
  also have "\<dots> = take_bit 56 v OR push_bit 56 (take_bit 8 (drop_bit 56 v))"
    by (rule take_bit_split)
  also have "take_bit 56 v = take_bit (48 + 8) v" by simp
  also have "\<dots> = take_bit 48 v OR push_bit 48 (take_bit 8 (drop_bit 48 v))"
    by (rule take_bit_split)
  also have "take_bit 48 v = take_bit (40 + 8) v" by simp
  also have "\<dots> = take_bit 40 v OR push_bit 40 (take_bit 8 (drop_bit 40 v))"
    by (rule take_bit_split)
  also have "take_bit 40 v = take_bit (32 + 8) v" by simp
  also have "\<dots> = take_bit 32 v OR push_bit 32 (take_bit 8 (drop_bit 32 v))"
    by (rule take_bit_split)
  also have "take_bit 32 v = take_bit (24 + 8) v" by simp
  also have "\<dots> = take_bit 24 v OR push_bit 24 (take_bit 8 (drop_bit 24 v))"
    by (rule take_bit_split)
  also have "take_bit 24 v = take_bit (16 + 8) v" by simp
  also have "\<dots> = take_bit 16 v OR push_bit 16 (take_bit 8 (drop_bit 16 v))"
    by (rule take_bit_split)
  also have "take_bit 16 v = take_bit (8 + 8) v" by simp
  also have "\<dots> = take_bit 8 v OR push_bit 8 (take_bit 8 (drop_bit 8 v))"
    by (rule take_bit_split)
  finally have "v = take_bit 8 v OR push_bit 8 (take_bit 8 (drop_bit 8 v))
      OR push_bit 16 (take_bit 8 (drop_bit 16 v)) OR push_bit 24 (take_bit 8 (drop_bit 24 v))
      OR push_bit 32 (take_bit 8 (drop_bit 32 v)) OR push_bit 40 (take_bit 8 (drop_bit 40 v))
      OR push_bit 48 (take_bit 8 (drop_bit 48 v)) OR push_bit 56 (take_bit 8 (drop_bit 56 v))"
    by (simp only: or.assoc)
  then show ?thesis
    by (simp only: ucast_byte_back or.assoc)
qed

lemma Uint64_PutUint64:
  "PutUint64 (replicate nonceSize 0) v = Some buf \<Longrightarrow>
   Uint64 (take nonceSize (buf @ rest)) = Some v"
  by (auto simp: PutUint64_def Uint64_def nonceSize_def be_join)

lemma drop_PutUint64:
  "PutUint64 (replicate nonceSize 0) v = Some buf \<Longrightarrow> drop nonceSize (buf @ rest) = rest"
  by (auto simp: PutUint64_def nonceSize_def)

text \<open>Each byte written by \<open>PutUint64\<close> is a base-256 digit of the counter.\<close>

lemma byte_digit:
  fixes v :: uint64
  shows "(ucast (drop_bit n v) :: byte) = of_nat (unat v div 2 ^ n mod 256)"
proof -
  have "(ucast (drop_bit n v) :: byte) = of_nat (unat (drop_bit n v))"
    by simp
  also have "unat (drop_bit n v) = unat v div 2 ^ n"
    by (subst unat_drop_bit_eq) (rule drop_bit_eq_div)
  also have "of_nat (unat v div 2 ^ n) = (of_nat (unat v div 2 ^ n mod 256) :: byte)"
    by (simp add: word_of_nat_eq_iff take_bit_eq_mod)
  finally show ?thesis .
qed

lemma PutUint64_big_endian8:
  "PutUint64 (replicate nonceSize 0) v = Some (big_endian8 (unat v))"
  using byte_digit [of 56 v] byte_digit [of 48 v] byte_digit [of 40 v] byte_digit [of 32 v]
    byte_digit [of 24 v] byte_digit [of 16 v] byte_digit [of 8 v] byte_digit [of 0 v]
  by (simp add: PutUint64_def nonceSize_def big_endian8_def)

text \<open>The three ways a call with a full header can go, and what each leaves behind.\<close>

lemma EncryptUnsafe_transport:
  assumes "enc ns = Some cs"
  shows "EncryptUnsafe ns p =
     (Returns (big_endian8 (unat (encNonce ns + 1)) @
               Encrypt (Cipher cs) [] (encNonce ns + 1) [] p),
      ns\<lparr>encNonce := encNonce ns + 1\<rparr>)"
  using assms by (simp add: EncryptUnsafe_def AddUint64_def PutUint64_big_endian8)

lemma DecryptUnsafe_accept:
  assumes "Uint64 (take nonceSize ct) = Some r" and "decNonce ns < r" and "dec ns = Some cs"
  shows "DecryptUnsafe ns ct =
     (Returns (Decrypt (Cipher cs) [] r [] (drop nonceSize ct)),
      ns\<lparr>decNonce := decNonce ns + 1\<rparr>)"
proof -
  from assms(1) have len: "\<not> length ct < nonceSize" "length ct \<noteq> 0"
    by (auto simp: Uint64_def nonceSize_def split: if_splits)
  from assms(2) have "\<not> r \<le> decNonce ns" by simp
  with assms len show ?thesis
    by (simp add: DecryptUnsafe_def AddUint64_def CompareAndSwapUint64_def)
qed

lemma DecryptUnsafe_reject:
  assumes "Uint64 (take nonceSize ct) = Some r" and "r \<le> decNonce ns"
  shows "DecryptUnsafe ns ct = (Returns (None, None), ns\<lparr>decNonce := decNonce ns + 1\<rparr>)"
proof -
  from assms(1) have len: "\<not> length ct < nonceSize" "length ct \<noteq> 0"
    by (auto simp: Uint64_def nonceSize_def split: if_splits)
  with assms show ?thesis
    by (simp add: DecryptUnsafe_def AddUint64_def)
qed

text \<open>
  After the increment the cell holds \<open>lastSeq + 1\<close>, so the compare-and-swap against
  \<open>lastSeq\<close> finds a different value and stores nothing: every call with a full header
  leaves the receive counter one higher, whatever counter the message carries.
\<close>

lemma DecryptUnsafe_counts_calls:
  "nonceSize \<le> length ct \<Longrightarrow> snd (DecryptUnsafe ns ct) = ns\<lparr>decNonce := decNonce ns + 1\<rparr>"
  by (auto simp: DecryptUnsafe_def Uint64_def AddUint64_def CompareAndSwapUint64_def
      nonceSize_def Let_def split: option.splits)

lemma Uint64_big_endian8:
  "Uint64 (take nonceSize (big_endian8 (unat v) @ rest)) = Some v"
  by (rule Uint64_PutUint64) (rule PutUint64_big_endian8)

lemma drop_big_endian8: "drop nonceSize (big_endian8 n @ rest) = rest"
  by (simp add: big_endian8_def nonceSize_def)

lemma EncryptUnsafe_state: "snd (EncryptUnsafe ns p) = ns\<lparr>encNonce := encNonce ns + 1\<rparr>"
  by (simp add: EncryptUnsafe_def AddUint64_def PutUint64_big_endian8 Let_def split: option.split)

lemma DecryptUnsafe_state:
  "snd (DecryptUnsafe ns ct) = ns \<or> snd (DecryptUnsafe ns ct) = ns\<lparr>decNonce := decNonce ns + 1\<rparr>"
  by (auto simp: DecryptUnsafe_def Uint64_def AddUint64_def CompareAndSwapUint64_def
      nonceSize_def Let_def split: option.splits)

lemma EncryptUnsafe_calls_Cons:
  "fst (EncryptUnsafe_calls ns (p # ps)) =
     fst (EncryptUnsafe ns p) # fst (EncryptUnsafe_calls (snd (EncryptUnsafe ns p)) ps)"
  "snd (EncryptUnsafe_calls ns (p # ps)) =
     snd (EncryptUnsafe_calls (snd (EncryptUnsafe ns p)) ps)"
  by (simp_all split: prod.splits)

lemma EncryptUnsafe_calls_length: "length (fst (EncryptUnsafe_calls ns ps)) = length ps"
  by (induction ps arbitrary: ns) (simp_all add: EncryptUnsafe_calls_Cons del: EncryptUnsafe_calls.simps(2))

lemma EncryptUnsafe_calls_state:
  "snd (EncryptUnsafe_calls ns ps) = ns\<lparr>encNonce := encNonce ns + of_nat (length ps)\<rparr>"
proof (induction ps arbitrary: ns)
  case Nil
  show ?case by simp
next
  case (Cons p ps)
  have "encNonce ns + 1 + of_nat (length ps) = encNonce ns + of_nat (length (p # ps))"
    by simp
  then show ?case
    by (simp add: EncryptUnsafe_calls_Cons EncryptUnsafe_state Cons.IH
        del: EncryptUnsafe_calls.simps(2) of_nat_Suc)
qed

lemma EncryptUnsafe_calls_nth:
  assumes "enc ns = Some cs" and "i < length ps"
  shows "fst (EncryptUnsafe_calls ns ps) ! i =
     Returns (big_endian8 (unat (encNonce ns + of_nat (Suc i))) @
              Encrypt (Cipher cs) [] (encNonce ns + of_nat (Suc i)) [] (ps ! i))"
  using assms
proof (induction ps arbitrary: ns i)
  case Nil
  then show ?case by simp
next
  case (Cons p ps)
  let ?ns1 = "ns\<lparr>encNonce := encNonce ns + 1\<rparr>"
  have step: "EncryptUnsafe ns p =
      (Returns (big_endian8 (unat (encNonce ns + 1)) @
                Encrypt (Cipher cs) [] (encNonce ns + 1) [] p), ?ns1)"
    using Cons.prems(1) by (rule EncryptUnsafe_transport)
  show ?case
  proof (cases i)
    case 0
    then show ?thesis
      by (simp add: EncryptUnsafe_calls_Cons step del: EncryptUnsafe_calls.simps(2))
  next
    case (Suc k)
    with Cons.prems have k: "k < length ps" by simp
    have e: "enc ?ns1 = Some cs" using Cons.prems(1) by simp
    have w: "encNonce ?ns1 + of_nat (Suc k) = encNonce ns + of_nat (Suc (Suc k))"
      by simp
    have "fst (EncryptUnsafe_calls ?ns1 ps) ! k =
        Returns (big_endian8 (unat (encNonce ns + of_nat (Suc (Suc k)))) @
                 Encrypt (Cipher cs) [] (encNonce ns + of_nat (Suc (Suc k))) [] (ps ! k))"
      using Cons.IH [OF e k] by (simp only: w)
    then show ?thesis
      using Suc by (simp add: EncryptUnsafe_calls_Cons step del: EncryptUnsafe_calls.simps(2) of_nat_Suc)
  qed
qed

lemma unat_counter: "n < 2 ^ 64 \<Longrightarrow> unat (of_nat n :: uint64) = n"
  by (simp add: unat_of_nat)

lemma two_not_le_one: "\<not> (2 :: uint64) \<le> 1"
  by (simp add: word_le_nat_alt)

text \<open>
  The demo ends are what \<open>New\<close>, \<open>HandshakeMessage\<close> and \<open>ProcessMessage\<close> compute over
  \<open>demo_lib\<close> for the KK pattern.
\<close>

lemma demo_handshake_initiator:
  "New demo_NewHandshakeState demo_Null HandshakeKK demo_initiator_config =
     Inr (demo_initiator_last_step\<lparr>hs := (hs demo_initiator_last_step)\<lparr>msgIdx := 0, shouldWrite := True\<rparr>\<rparr>)"
  "HandshakeMessage demo_lib
     (demo_initiator_last_step\<lparr>hs := (hs demo_initiator_last_step)\<lparr>msgIdx := 0, shouldWrite := True\<rparr>\<rparr>) =
     (([], None), demo_initiator_last_step)"
  "ProcessMessage demo_lib demo_initiator_last_step [] = (None, demo_initiator)"
  by (simp_all add: New_def HandshakeMessage_def ProcessMessage_def demo_initiator_config_def
      demo_initiator_last_step_def demo_initiator_def demo_lib_def demo_step_def
      demo_NewHandshakeState_def demo_Null_def HandshakeKK_def)

lemma demo_handshake_responder:
  "New demo_NewHandshakeState demo_Null HandshakeKK demo_responder_config =
     Inr (demo_responder_last_step\<lparr>hs := (hs demo_responder_last_step)\<lparr>msgIdx := 0, shouldWrite := False\<rparr>\<rparr>)"
  "ProcessMessage demo_lib
     (demo_responder_last_step\<lparr>hs := (hs demo_responder_last_step)\<lparr>msgIdx := 0, shouldWrite := False\<rparr>\<rparr>) [] =
     (None, demo_responder_last_step)"
  "HandshakeMessage demo_lib demo_responder_last_step = (([], None), demo_responder)"
  by (simp_all add: New_def HandshakeMessage_def ProcessMessage_def demo_responder_config_def
      demo_responder_last_step_def demo_responder_def demo_lib_def demo_step_def
      demo_NewHandshakeState_def demo_Null_def HandshakeKK_def)

text \<open>
  The conversion used with the demo ends is the modelled \<open>NewPubKey\<close> over a primitive that
  accepts every byte string of the key length.
\<close>

lemma demo_NewPubKey_NewPubKey: "demo_NewPubKey = NewPubKey (\<lambda>b. True)"
  by (rule ext) (simp add: demo_NewPubKey_def NewPubKey_def)

section \<open>Properties\<close>

text \<open>
  C6. For every channel state, \<open>DecryptUnsafe\<close> on the empty input returns the empty,
  non-nil plaintext and no error, and the channel is left exactly as it was: the receive
  counter and every other field are unchanged.
\<close>

theorem DecryptUnsafe_empty_input:
  "DecryptUnsafe ns [] = (Returns (Some [], None), ns)"
  by (simp add: DecryptUnsafe_def)

text \<open>
  C7. For every channel state, \<open>DecryptUnsafe\<close> on a non-empty input of fewer than 8
  bytes panics with the message of the length check and leaves the channel untouched; it
  does not return. On an input of 8 bytes or more the call never ends in that panic.
\<close>

theorem DecryptUnsafe_short_input_panics:
  "(0 < length ct \<and> length ct < nonceSize \<longrightarrow>
      DecryptUnsafe ns ct =
        (Panics ''noise decrypt unsafe: cipher text cannot be less than 8 bytes'', ns)) \<and>
   (nonceSize \<le> length ct \<longrightarrow>
      fst (DecryptUnsafe ns ct) \<noteq>
        Panics ''noise decrypt unsafe: cipher text cannot be less than 8 bytes'')"
  by (auto simp: DecryptUnsafe_def Uint64_def AddUint64_def CompareAndSwapUint64_def
      nonceSize_def Let_def nil_dereference_def index_out_of_range_def split: option.splits)

text \<open>The same at a 3-byte input and at an 11-byte transport message.\<close>

theorem DecryptUnsafe_short_input_panics_witness:
  "(0 < length [1, 2, 3 :: byte] \<and> length [1, 2, 3 :: byte] < nonceSize) \<and>
   DecryptUnsafe demo_responder [1, 2, 3] =
     (Panics ''noise decrypt unsafe: cipher text cannot be less than 8 bytes'', demo_responder) \<and>
   nonceSize \<le> length [0, 0, 0, 0, 0, 0, 0, 1, 91, 88, 91 :: byte] \<and>
   fst (DecryptUnsafe demo_responder [0, 0, 0, 0, 0, 0, 0, 1, 91, 88, 91]) \<noteq>
     Panics ''noise decrypt unsafe: cipher text cannot be less than 8 bytes''"
  using DecryptUnsafe_short_input_panics [of "[1, 2, 3]" demo_responder]
    DecryptUnsafe_short_input_panics [of "[0, 0, 0, 0, 0, 0, 0, 1, 91, 88, 91]" demo_responder]
  by (simp add: nonceSize_def)

text \<open>
  C10. The two directions are disjoint. \<open>EncryptUnsafe\<close> changes the send counter and
  nothing else, and neither its result nor its effect depends on the receive counter or the
  receive cipher state: replacing them beforehand is the same as replacing them afterwards.
  \<open>DecryptUnsafe\<close> changes at most the receive counter, and neither its result nor its
  effect depends on the send counter or the send cipher state.
\<close>

theorem transport_directions_disjoint:
  "snd (EncryptUnsafe ns p) = ns\<lparr>encNonce := encNonce ns + 1\<rparr> \<and>
   EncryptUnsafe (ns\<lparr>dec := c, decNonce := d\<rparr>) p =
     (fst (EncryptUnsafe ns p), (snd (EncryptUnsafe ns p))\<lparr>dec := c, decNonce := d\<rparr>) \<and>
   snd (DecryptUnsafe ns ct) = ns\<lparr>decNonce := decNonce (snd (DecryptUnsafe ns ct))\<rparr> \<and>
   DecryptUnsafe (ns\<lparr>enc := c, encNonce := e\<rparr>) ct =
     (fst (DecryptUnsafe ns ct), (snd (DecryptUnsafe ns ct))\<lparr>enc := c, encNonce := e\<rparr>)"
proof (intro conjI)
  show "snd (EncryptUnsafe ns p) = ns\<lparr>encNonce := encNonce ns + 1\<rparr>"
    by (rule EncryptUnsafe_state)
  show "EncryptUnsafe (ns\<lparr>dec := c, decNonce := d\<rparr>) p =
     (fst (EncryptUnsafe ns p), (snd (EncryptUnsafe ns p))\<lparr>dec := c, decNonce := d\<rparr>)"
    by (simp add: EncryptUnsafe_def AddUint64_def PutUint64_big_endian8 Let_def
        split: option.split)
  show "snd (DecryptUnsafe ns ct) = ns\<lparr>decNonce := decNonce (snd (DecryptUnsafe ns ct))\<rparr>"
    using DecryptUnsafe_state [of ns ct] by auto
  show "DecryptUnsafe (ns\<lparr>enc := c, encNonce := e\<rparr>) ct =
     (fst (DecryptUnsafe ns ct), (snd (DecryptUnsafe ns ct))\<lparr>enc := c, encNonce := e\<rparr>)"
    by (simp add: DecryptUnsafe_def AddUint64_def CompareAndSwapUint64_def Let_def
        split: option.split)
qed

text \<open>
  C5. On a channel in transport mode whose receive counter is still 0, let two messages
  carry the counters 2 and 1, the first with a body that the receive cipher decrypts under
  nonce 2. Decrypting the counter-2 message first returns its plaintext without error, and
  the following call on the counter-1 message returns neither plaintext nor error.
\<close>

theorem DecryptUnsafe_two_then_one:
  assumes "decNonce ns = 0" and "dec ns = Some cs"
    and "Decrypt (Cipher cs) [] 2 [] body2 = (Some plain2, None)"
  shows "DecryptUnsafe_calls ns [big_endian8 2 @ body2, big_endian8 1 @ body1] =
     ([Returns (Some plain2, None), Returns (None, None)], ns\<lparr>decNonce := 2\<rparr>)"
proof -
  have r2: "Uint64 (take nonceSize (big_endian8 2 @ body2)) = Some 2"
    using Uint64_big_endian8 [of 2 body2] by simp
  have r1: "Uint64 (take nonceSize (big_endian8 1 @ body1)) = Some 1"
    using Uint64_big_endian8 [of 1 body1] by simp
  have first: "DecryptUnsafe ns (big_endian8 2 @ body2) =
      (Returns (Some plain2, None), ns\<lparr>decNonce := 1\<rparr>)"
    using DecryptUnsafe_accept [OF r2, of ns cs, unfolded drop_big_endian8] assms by simp
  have second: "DecryptUnsafe (ns\<lparr>decNonce := 1\<rparr>) (big_endian8 1 @ body1) =
      (Returns (None, None), ns\<lparr>decNonce := 2\<rparr>)"
    using DecryptUnsafe_reject [OF r1, of "ns\<lparr>decNonce := 1\<rparr>"] by simp
  show ?thesis by (simp only: DecryptUnsafe_calls.simps first second prod.case)
qed

text \<open>
  The same at the responder of the demo handshake, with the second and the first message
  that its peer produces for the plaintexts \<open>[3]\<close> and \<open>[1, 2]\<close>.
\<close>

theorem DecryptUnsafe_two_then_one_witness:
  "decNonce demo_responder = 0 \<and> dec demo_responder = Some demo_cs1 \<and>
   Decrypt (Cipher demo_cs1) [] 2 [] [89, 92] = (Some [3], None) \<and>
   DecryptUnsafe_calls demo_responder [big_endian8 2 @ [89, 92], big_endian8 1 @ [91, 88, 91]] =
     ([Returns (Some [3], None), Returns (None, None)], demo_responder\<lparr>decNonce := 2\<rparr>)"
proof -
  have a: "decNonce demo_responder = 0" by (simp add: demo_responder_def)
  have b: "dec demo_responder = Some demo_cs1" by (simp add: demo_responder_def)
  have c: "Decrypt (Cipher demo_cs1) [] 2 [] [89, 92] = (Some [3], None)"
    by (simp add: demo_cs1_def demo_cipher_def)
  from a b c DecryptUnsafe_two_then_one [OF a b c, of "[91, 88, 91]"] show ?thesis by simp
qed

text \<open>
  C4. On a channel in transport mode whose send counter is 0, take \<open>N\<close> consecutive
  \<open>EncryptUnsafe\<close> calls, \<open>N\<close> below \<open>2 ^ 64\<close> so that every counter has an 8-byte
  encoding. Call number \<open>i\<close> (counted from 1) returns the 8-byte big-endian encoding of \<open>i\<close>
  followed by what the send cipher's \<open>Encrypt\<close> gives for the plaintext under nonce \<open>i\<close>
  with empty associated data. Read back from the results, the embedded counters are
  \<open>1, 2, \<dots>, N\<close>: strictly increasing and without duplicates. The send counter ends at \<open>N\<close>.
\<close>

theorem EncryptUnsafe_calls_counters:
  assumes "enc ns = Some cs" and "encNonce ns = 0" and "length ps < 2 ^ 64"
  shows "length (fst (EncryptUnsafe_calls ns ps)) = length ps \<and>
    (\<forall>i<length ps. fst (EncryptUnsafe_calls ns ps) ! i =
        Returns (big_endian8 (Suc i) @ Encrypt (Cipher cs) [] (of_nat (Suc i)) [] (ps ! i))) \<and>
    map (map_option unat \<circ> embedded_counter) (fst (EncryptUnsafe_calls ns ps)) =
      map Some [1..<Suc (length ps)] \<and>
    (\<forall>i j. i < j \<and> j < length ps \<longrightarrow>
       (\<exists>a b. embedded_counter (fst (EncryptUnsafe_calls ns ps) ! i) = Some a \<and>
              embedded_counter (fst (EncryptUnsafe_calls ns ps) ! j) = Some b \<and> a < b)) \<and>
    distinct (map embedded_counter (fst (EncryptUnsafe_calls ns ps))) \<and>
    encNonce (snd (EncryptUnsafe_calls ns ps)) = of_nat (length ps)"
proof -
  let ?outs = "fst (EncryptUnsafe_calls ns ps)"
  have len: "length ?outs = length ps" by (rule EncryptUnsafe_calls_length)
  have nth: "?outs ! i =
      Returns (big_endian8 (Suc i) @ Encrypt (Cipher cs) [] (of_nat (Suc i)) [] (ps ! i))"
    if "i < length ps" for i
  proof -
    from that assms(3) have "Suc i < 2 ^ 64" by simp
    then have "unat (of_nat (Suc i) :: uint64) = Suc i" by (rule unat_counter)
    with EncryptUnsafe_calls_nth [OF assms(1) that] assms(2) show ?thesis by simp
  qed
  have ctr: "embedded_counter (?outs ! i) = Some (of_nat (Suc i))" if "i < length ps" for i
  proof -
    from that assms(3) have "Suc i < 2 ^ 64" by simp
    then have u: "unat (of_nat (Suc i) :: uint64) = Suc i" by (rule unat_counter)
    have "Uint64 (take nonceSize (big_endian8 (unat (of_nat (Suc i) :: uint64)) @
          Encrypt (Cipher cs) [] (of_nat (Suc i)) [] (ps ! i))) = Some (of_nat (Suc i))"
      by (rule Uint64_big_endian8)
    then have "Uint64 (take nonceSize (big_endian8 (Suc i) @
          Encrypt (Cipher cs) [] (of_nat (Suc i)) [] (ps ! i))) = Some (of_nat (Suc i))"
      by (simp only: u)
    then show ?thesis by (simp only: embedded_counter_def nth [OF that] outcome.case)
  qed
  have nums: "map (map_option unat \<circ> embedded_counter) ?outs = map Some [1..<Suc (length ps)]"
  proof (rule nth_equalityI)
    show "length (map (map_option unat \<circ> embedded_counter) ?outs) =
        length (map Some [1..<Suc (length ps)])"
      by (simp add: len del: upt_Suc)
  next
    fix i assume "i < length (map (map_option unat \<circ> embedded_counter) ?outs)"
    then have i: "i < length ps" by (simp add: len)
    with assms(3) have "Suc i < 2 ^ 64" by simp
    then have "unat (of_nat (Suc i) :: uint64) = Suc i" by (rule unat_counter)
    with i show "map (map_option unat \<circ> embedded_counter) ?outs ! i =
        map Some [1..<Suc (length ps)] ! i"
      by (simp add: len ctr nth_append del: upt_Suc of_nat_Suc)
  qed
  have "distinct (map (map_option unat \<circ> embedded_counter) ?outs)"
    by (simp only: nums) (simp add: distinct_map del: upt_Suc)
  then have dist: "distinct (map embedded_counter ?outs)"
    by (simp only: map_map [symmetric] distinct_map)
  have fin: "encNonce (snd (EncryptUnsafe_calls ns ps)) = of_nat (length ps)"
    by (simp add: EncryptUnsafe_calls_state assms(2))
  have incr: "\<exists>a b. embedded_counter (?outs ! i) = Some a \<and>
      embedded_counter (?outs ! j) = Some b \<and> a < b"
    if "i < j" and "j < length ps" for i j
  proof -
    from that assms(3) have "Suc i < 2 ^ 64" and "Suc j < 2 ^ 64" by simp_all
    then have "unat (of_nat (Suc i) :: uint64) = Suc i" and "unat (of_nat (Suc j) :: uint64) = Suc j"
      by (simp_all only: unat_counter)
    with that have "(of_nat (Suc i) :: uint64) < of_nat (Suc j)"
      by (simp only: word_less_nat_alt)
    moreover from that have "i < length ps" by simp
    ultimately show ?thesis using ctr that(2) by blast
  qed
  from len nth nums incr dist fin show ?thesis by blast
qed

text \<open>The same for three calls on the initiator of the demo handshake.\<close>

theorem EncryptUnsafe_calls_counters_witness:
  "enc demo_initiator = Some demo_cs1 \<and> encNonce demo_initiator = 0 \<and>
   length [[1, 2], [3], [4, 5, 6 :: byte]] < 2 ^ 64 \<and>
   fst (EncryptUnsafe_calls demo_initiator [[1, 2], [3], [4, 5, 6]]) ! 2 =
     Returns (big_endian8 3 @ Encrypt (Cipher demo_cs1) [] 3 [] [4, 5, 6]) \<and>
   map (map_option unat \<circ> embedded_counter)
     (fst (EncryptUnsafe_calls demo_initiator [[1, 2], [3], [4, 5, 6]])) = [Some 1, Some 2, Some 3]"
proof -
  have a: "enc demo_initiator = Some demo_cs1" by (simp add: demo_initiator_def)
  have b: "encNonce demo_initiator = 0" by (simp add: demo_initiator_def)
  have c: "length [[1, 2], [3], [4, 5, 6 :: byte]] < 2 ^ 64" by simp
  have d: "[1..<Suc (length [[1, 2], [3], [4, 5, 6 :: byte]])] = [1, 2, 3]" by code_simp
  from EncryptUnsafe_calls_counters [OF a b c]
  have "fst (EncryptUnsafe_calls demo_initiator [[1, 2], [3], [4, 5, 6]]) ! 2 =
      Returns (big_endian8 (Suc 2) @ Encrypt (Cipher demo_cs1) [] (of_nat (Suc 2)) [] ([[1, 2], [3], [4, 5, 6]] ! 2))"
    and "map (map_option unat \<circ> embedded_counter)
     (fst (EncryptUnsafe_calls demo_initiator [[1, 2], [3], [4, 5, 6]])) =
       map Some [1..<Suc (length [[1, 2], [3], [4, 5, 6 :: byte]])]"
    by simp_all
  then show ?thesis using a b c d by simp
qed

text \<open>
  C8. For every handshake pattern and every handshake library: at the last message of the
  pattern (message index \<open>length Messages - 1\<close>) \<open>HandshakeMessage\<close> stores the pair of
  cipher states that \<open>WriteMessage\<close> returns as (receive, send) and \<open>ProcessMessage\<close>
  stores the pair that \<open>ReadMessage\<close> returns as (send, receive). So when both ends obtain
  the same pair, the send state of each is the receive state of the other. At every earlier
  message index both operations leave \<open>enc\<close> and \<open>dec\<close> as they were.
\<close>

theorem handshake_stores_cipher_states_at_last_step:
  fixes producer :: "'p Noise" and consumer :: "'c Noise"
  assumes "MessageIndex libp (hs producer) = int (length (Messages (pattern producer))) - 1"
    and "MessageIndex libc (hs consumer) = int (length (Messages (pattern consumer))) - 1"
    and "WriteMessage libp (hs producer) [] [] = ((res, cs1, cs2, err), h)"
    and "ReadMessage libc (hs consumer) [] msg = ((res', cs1, cs2, err'), h')"
  shows "snd (HandshakeMessage libp producer) = producer\<lparr>hs := h, dec := cs1, enc := cs2\<rparr> \<and>
    snd (ProcessMessage libc consumer msg) = consumer\<lparr>hs := h', enc := cs1, dec := cs2\<rparr> \<and>
    enc (snd (HandshakeMessage libp producer)) = dec (snd (ProcessMessage libc consumer msg)) \<and>
    dec (snd (HandshakeMessage libp producer)) = enc (snd (ProcessMessage libc consumer msg)) \<and>
    (\<forall>early m. MessageIndex libp (hs early) < int (length (Messages (pattern early))) - 1 \<longrightarrow>
       enc (snd (HandshakeMessage libp early)) = enc early \<and>
       dec (snd (HandshakeMessage libp early)) = dec early \<and>
       enc (snd (ProcessMessage libp early m)) = enc early \<and>
       dec (snd (ProcessMessage libp early m)) = dec early)"
proof -
  have w: "snd (HandshakeMessage libp producer) = producer\<lparr>hs := h, dec := cs1, enc := cs2\<rparr>"
    using assms(1,3) by (simp add: HandshakeMessage_def)
  have r: "snd (ProcessMessage libc consumer msg) = consumer\<lparr>hs := h', enc := cs1, dec := cs2\<rparr>"
    using assms(2,4) by (simp add: ProcessMessage_def)
  have early: "enc (snd (HandshakeMessage libp early)) = enc early \<and>
       dec (snd (HandshakeMessage libp early)) = dec early \<and>
       enc (snd (ProcessMessage libp early m)) = enc early \<and>
       dec (snd (ProcessMessage libp early m)) = dec early"
    if "MessageIndex libp (hs early) < int (length (Messages (pattern early))) - 1"
    for early :: "'p Noise" and m
    using that by (simp add: HandshakeMessage_def ProcessMessage_def split: prod.splits)
  from w r early show ?thesis by simp
qed

text \<open>
  The same at the last step of the KK handshake between the two demo ends, and at the first
  step of an XK responder.
\<close>

theorem handshake_stores_cipher_states_at_last_step_witness:
  "MessageIndex demo_lib (hs demo_responder_last_step) =
     int (length (Messages (pattern demo_responder_last_step))) - 1 \<and>
   MessageIndex demo_lib (hs demo_initiator_last_step) =
     int (length (Messages (pattern demo_initiator_last_step))) - 1 \<and>
   WriteMessage demo_lib (hs demo_responder_last_step) [] [] =
     (([], Some demo_cs1, Some demo_cs2, None), hs demo_responder) \<and>
   ReadMessage demo_lib (hs demo_initiator_last_step) [] [] =
     (([], Some demo_cs1, Some demo_cs2, None), hs demo_initiator) \<and>
   snd (HandshakeMessage demo_lib demo_responder_last_step) = demo_responder \<and>
   snd (ProcessMessage demo_lib demo_initiator_last_step []) = demo_initiator \<and>
   enc (snd (HandshakeMessage demo_lib demo_responder_last_step)) =
     dec (snd (ProcessMessage demo_lib demo_initiator_last_step [])) \<and>
   MessageIndex demo_lib (hs demo_xk_responder) <
     int (length (Messages (pattern demo_xk_responder))) - 1 \<and>
   enc (snd (ProcessMessage demo_lib demo_xk_responder [])) = enc demo_xk_responder"
proof -
  have a: "MessageIndex demo_lib (hs demo_responder_last_step) =
     int (length (Messages (pattern demo_responder_last_step))) - 1"
    by (simp add: demo_responder_last_step_def demo_lib_def HandshakeKK_def)
  have b: "MessageIndex demo_lib (hs demo_initiator_last_step) =
     int (length (Messages (pattern demo_initiator_last_step))) - 1"
    by (simp add: demo_initiator_last_step_def demo_lib_def HandshakeKK_def)
  have c: "WriteMessage demo_lib (hs demo_responder_last_step) [] [] =
     (([], Some demo_cs1, Some demo_cs2, None), hs demo_responder)"
    by (simp add: demo_responder_last_step_def demo_responder_def demo_lib_def demo_step_def
        HandshakeKK_def)
  have d: "ReadMessage demo_lib (hs demo_initiator_last_step) [] [] =
     (([], Some demo_cs1, Some demo_cs2, None), hs demo_initiator)"
    by (simp add: demo_initiator_last_step_def demo_initiator_def demo_lib_def demo_step_def
        HandshakeKK_def)
  have e: "MessageIndex demo_lib (hs demo_xk_responder) <
     int (length (Messages (pattern demo_xk_responder))) - 1"
    by (simp add: demo_xk_responder_def demo_lib_def HandshakeXK_def)
  have f: "demo_responder_last_step\<lparr>hs := hs demo_responder, dec := Some demo_cs1,
      enc := Some demo_cs2\<rparr> = demo_responder"
    by (simp add: demo_responder_last_step_def demo_responder_def)
  have g: "demo_initiator_last_step\<lparr>hs := hs demo_initiator, enc := Some demo_cs1,
      dec := Some demo_cs2\<rparr> = demo_initiator"
    by (simp add: demo_initiator_last_step_def demo_initiator_def)
  note t = handshake_stores_cipher_states_at_last_step [OF a b c d, unfolded f g]
  from t have t1: "snd (HandshakeMessage demo_lib demo_responder_last_step) = demo_responder"
    and t2: "snd (ProcessMessage demo_lib demo_initiator_last_step []) = demo_initiator"
    and t3: "enc (snd (HandshakeMessage demo_lib demo_responder_last_step)) =
      dec (snd (ProcessMessage demo_lib demo_initiator_last_step []))"
    by blast+
  from t e have t4: "enc (snd (ProcessMessage demo_lib demo_xk_responder [])) =
      enc demo_xk_responder"
    by blast
  from a b c d e t1 t2 t3 t4 show ?thesis by (intro conjI)
qed

text \<open>
  C9, as the code has it. Once the handshake state holds the peer's static key (a byte
  string of the key length that the primitive accepts), \<open>RemoteStatic\<close> returns exactly that
  key. Before the handshake has revealed the key the peer static bytes are empty, and the
  call panics; it does not fail with a recoverable error. On any peer static bytes that are
  not a key the call panics as well.
\<close>

theorem RemoteStatic_revealed_key_or_panic:
  "(length (PeerStatic lib (hs ns)) = 33 \<and> valid (PeerStatic lib (hs ns)) \<longrightarrow>
      RemoteStatic (NewPubKey valid) lib ns = Returns (PeerStatic lib (hs ns))) \<and>
   (PeerStatic lib (hs ns) = [] \<longrightarrow>
      RemoteStatic (NewPubKey valid) lib ns = Panics ''Invalid public key length'') \<and>
   (\<not> (length (PeerStatic lib (hs ns)) = 33 \<and> valid (PeerStatic lib (hs ns))) \<longrightarrow>
      (\<exists>err. RemoteStatic (NewPubKey valid) lib ns = Panics err))"
  by (simp add: RemoteStatic_def NewPubKey_def)

text \<open>
  The same for the initiator of the demo handshake, whose handshake state holds the key
  pinned by its configuration, and for the XK responder fresh from \<open>New\<close>, which has no
  peer key yet.
\<close>

theorem RemoteStatic_revealed_key_or_panic_witness:
  "New demo_NewHandshakeState demo_Null HandshakeKK demo_initiator_config =
     Inr (demo_initiator_last_step\<lparr>hs := (hs demo_initiator_last_step)\<lparr>msgIdx := 0, shouldWrite := True\<rparr>\<rparr>) \<and>
   length (PeerStatic demo_lib (hs demo_initiator)) = 33 \<and>
   RemoteStatic (NewPubKey (\<lambda>b. True)) demo_lib demo_initiator =
     Returns (RemotePK demo_initiator_config) \<and>
   PeerStatic demo_lib (hs demo_xk_responder) = [] \<and>
   RemoteStatic (NewPubKey (\<lambda>b. True)) demo_lib demo_xk_responder =
     Panics ''Invalid public key length''"
proof -
  have a: "length (PeerStatic demo_lib (hs demo_initiator)) = 33"
    by (simp add: demo_lib_def demo_initiator_def)
  have b: "PeerStatic demo_lib (hs demo_initiator) = RemotePK demo_initiator_config"
    by (simp add: demo_lib_def demo_initiator_def demo_initiator_config_def)
  have c: "PeerStatic demo_lib (hs demo_xk_responder) = []"
    by (simp add: demo_lib_def demo_xk_responder_def)
  from RemoteStatic_revealed_key_or_panic [of demo_lib demo_initiator "\<lambda>b. True"] a b
  have r1: "RemoteStatic (NewPubKey (\<lambda>b. True)) demo_lib demo_initiator =
     Returns (RemotePK demo_initiator_config)"
    by simp
  from RemoteStatic_revealed_key_or_panic [of demo_lib demo_xk_responder "\<lambda>b. True"] c
  have r2: "RemoteStatic (NewPubKey (\<lambda>b. True)) demo_lib demo_xk_responder =
     Panics ''Invalid public key length''"
    by simp
  from demo_handshake_initiator(1) a r1 c r2 show ?thesis by (intro conjI)
qed

text \<open>
  C9 as stated fails: before the handshake has revealed the peer's key, \<open>RemoteStatic\<close>
  does not return a recoverable error. On an XK responder fresh from \<open>New\<close> the peer static
  bytes are empty and the call panics.
\<close>

theorem RemoteStatic_before_peer_key_panics:
  "New demo_NewHandshakeState demo_Null HandshakeXK demo_xk_config = Inr demo_xk_responder \<and>
   PeerStatic demo_lib (hs demo_xk_responder) = [] \<and>
   RemoteStatic demo_NewPubKey demo_lib demo_xk_responder = Panics ''Invalid public key length''"
  by (simp add: New_def RemoteStatic_def demo_xk_config_def demo_xk_responder_def
      demo_NewHandshakeState_def demo_Null_def demo_NewPubKey_def demo_lib_def)

text \<open>
  C1 states that a transport message is decrypted exactly when its counter is above the
  highest counter accepted before. The receive counter of the code counts calls instead.
  The initiator encrypts three plaintexts, giving messages with the counters 1, 2 and 3.
  Handed message 3 and then message 2, the responder decrypts both, although 2 is below the
  accepted 3. Handed message 1, message 1 again and then message 2, it decrypts the first
  and returns nothing for the other two, although 2 is above every accepted counter.
\<close>

theorem DecryptUnsafe_accepts_counter_below_accepted:
  "fst (EncryptUnsafe_calls demo_initiator [[1, 2], [3], [4, 5, 6]]) =
     [Returns [0, 0, 0, 0, 0, 0, 0, 1, 91, 88, 91],
      Returns [0, 0, 0, 0, 0, 0, 0, 2, 89, 92],
      Returns [0, 0, 0, 0, 0, 0, 0, 3, 94, 95, 92, 93]] \<and>
   DecryptUnsafe_calls demo_responder
     [[0, 0, 0, 0, 0, 0, 0, 3, 94, 95, 92, 93], [0, 0, 0, 0, 0, 0, 0, 2, 89, 92]] =
     ([Returns (Some [4, 5, 6], None), Returns (Some [3], None)],
      demo_responder\<lparr>decNonce := 2\<rparr>) \<and>
   DecryptUnsafe_calls demo_responder
     [[0, 0, 0, 0, 0, 0, 0, 1, 91, 88, 91], [0, 0, 0, 0, 0, 0, 0, 1, 91, 88, 91],
      [0, 0, 0, 0, 0, 0, 0, 2, 89, 92]] =
     ([Returns (Some [1, 2], None), Returns (None, None), Returns (None, None)],
      demo_responder\<lparr>decNonce := 3\<rparr>)"
  by (simp add: demo_initiator_def demo_responder_def EncryptUnsafe_def DecryptUnsafe_def
      AddUint64_def CompareAndSwapUint64_def PutUint64_def Uint64_def nonceSize_def Let_def
      demo_cs1_def demo_cs2_def demo_cipher_def two_not_le_one)

text \<open>
  C2 states that a replayed ciphertext is rejected and the channel stays usable. With
  message 1 lost, the responder decrypts message 2 and decrypts it again when it is replayed.
  With nothing lost, the replay of message 1 is rejected, and so are the fresh messages 2 and
  3 that follow it.
\<close>

theorem DecryptUnsafe_accepts_replay:
  "fst (EncryptUnsafe_calls demo_initiator [[1, 2], [3], [4, 5, 6]]) =
     [Returns [0, 0, 0, 0, 0, 0, 0, 1, 91, 88, 91],
      Returns [0, 0, 0, 0, 0, 0, 0, 2, 89, 92],
      Returns [0, 0, 0, 0, 0, 0, 0, 3, 94, 95, 92, 93]] \<and>
   DecryptUnsafe_calls demo_responder
     [[0, 0, 0, 0, 0, 0, 0, 2, 89, 92], [0, 0, 0, 0, 0, 0, 0, 2, 89, 92]] =
     ([Returns (Some [3], None), Returns (Some [3], None)],
      demo_responder\<lparr>decNonce := 2\<rparr>) \<and>
   DecryptUnsafe_calls demo_responder
     [[0, 0, 0, 0, 0, 0, 0, 1, 91, 88, 91], [0, 0, 0, 0, 0, 0, 0, 1, 91, 88, 91],
      [0, 0, 0, 0, 0, 0, 0, 2, 89, 92], [0, 0, 0, 0, 0, 0, 0, 3, 94, 95, 92, 93]] =
     ([Returns (Some [1, 2], None), Returns (None, None), Returns (None, None),
       Returns (None, None)],
      demo_responder\<lparr>decNonce := 4\<rparr>)"
  by (simp add: demo_initiator_def demo_responder_def EncryptUnsafe_def DecryptUnsafe_def
      AddUint64_def CompareAndSwapUint64_def PutUint64_def Uint64_def nonceSize_def Let_def
      demo_cs1_def demo_cs2_def demo_cipher_def two_not_le_one)

text \<open>
  C3 states that a successful decryption of a message with counter \<open>R\<close> leaves the
  receive counter at \<open>R\<close>. The responder, with receive counter 0, decrypts message 3 and is
  left with receive counter 1: the compare-and-swap expects 0 in a cell that the increment
  has already set to 1.
\<close>

theorem DecryptUnsafe_leaves_counter_below_accepted:
  "Uint64 (take nonceSize [0, 0, 0, 0, 0, 0, 0, 3, 94, 95, 92, 93]) = Some 3 \<and>
   decNonce demo_responder = 0 \<and>
   DecryptUnsafe demo_responder [0, 0, 0, 0, 0, 0, 0, 3, 94, 95, 92, 93] =
     (Returns (Some [4, 5, 6], None), demo_responder\<lparr>decNonce := 1\<rparr>)"
  by (simp add: demo_responder_def DecryptUnsafe_def
      AddUint64_def CompareAndSwapUint64_def Uint64_def nonceSize_def Let_def
      demo_cs1_def demo_cs2_def demo_cipher_def)

end
